theory Spec2Isabelle
  imports Complex_Main "HOL-Library.AList" "HOL-Library.Multiset"
begin

section \<open>dollarWize: the data model of \<^verbatim>\<open>src/dollarWize.ts\<close>\<close>

text \<open>
  The TypeScript type \<^verbatim>\<open>number\<close> is modelled by the rationals: every arithmetic
  expression of the source is evaluated exactly, so the rounding of IEEE doubles, NaN and
  the infinities are outside the model. A \<^verbatim>\<open>Date\<close> is its number of milliseconds since
  the epoch (\<^verbatim>\<open>getTime()\<close>).
\<close>

type_synonym number = rat
type_synonym Date = int

datatype FinancialLiteracyLevel = novice | intermediate | advanced

datatype FinancialCategory =
    savings
  | retirement
  | investing
  | credit
  | planning
  | economics
  | taxation
  | real_estate
  | education
  | insurance
  | budgeting
  | debt_management

text \<open>
  Interface \<^verbatim>\<open>QuizQuestion\<close>. The fields \<^verbatim>\<open>id\<close>, \<^verbatim>\<open>level\<close> and \<^verbatim>\<open>category\<close> carry the
  prefix \<open>q_\<close>, since \<^verbatim>\<open>GlossaryTerm\<close> has fields of the same names.
\<close>

record QuizQuestion =
  q_id :: string
  question :: string
  options :: "string list"
  correct :: number
  q_level :: FinancialLiteracyLevel
  q_category :: FinancialCategory
  explanation :: string
  difficulty_weight :: number
  us_specific :: bool

text \<open>
  Interface \<^verbatim>\<open>GlossaryTerm\<close>, fields prefixed with \<open>t_\<close> where the name is taken.
  The optional fields \<^verbatim>\<open>us_context?\<close> and \<^verbatim>\<open>examples?\<close> are options. The interface
  declares \<^verbatim>\<open>related_terms: string[]\<close> as required, but six literals of the glossary
  leave it out, so at run time the field is either an array (\<open>Some\<close>) or
  \<^verbatim>\<open>undefined\<close> (\<open>None\<close>).
\<close>

record GlossaryTerm =
  t_id :: string
  t_term :: string
  t_definition :: string
  t_level :: FinancialLiteracyLevel
  t_category :: FinancialCategory
  related_terms :: "string list option"
  us_context :: "string option"
  examples :: "string list option"

text \<open>
  A JavaScript object used as \<^verbatim>\<open>Record<FinancialCategory, number>\<close> is an association
  list in insertion order, which is the order \<^verbatim>\<open>Object.entries\<close> enumerates: reading
  a key is \<open>map_of\<close>, and assigning to a key is \<open>AList.update\<close> (an existing key keeps
  its place, a new key goes last).
\<close>

type_synonym CategoryRecord = "(FinancialCategory \<times> number) list"

subsection \<open>The content of \<^verbatim>\<open>FinancialQuestionBank\<close>\<close>

text \<open>
  The private field \<^verbatim>\<open>questions\<close> of \<^verbatim>\<open>FinancialQuestionBank\<close>, literal by literal.
  Two explanations hold a character outside ASCII (a one-half sign in \<open>nov_001\<close>, a dash
  in \<open>adv_004\<close>); they are written \<open>1/2\<close> and \<open>-\<close> here. No function reads an
  explanation.
\<close>

definition FinancialQuestionBank_questions :: "QuizQuestion list" where
  "FinancialQuestionBank_questions = [
    \<lparr>q_id = ''nov_001'',
      question = ''What is the main benefit of a Roth IRA?'',
      options = [''You get a tax deduction for contributions'',
        ''Qualified withdrawals in retirement are tax-free'',
        ''It has no contribution limits'',
        ''It can only be used for a home down payment''],
      correct = 1,
      q_level = novice,
      q_category = retirement,
      explanation = ''A Roth IRA allows for tax-free growth and tax-free withdrawals in retirement, as long as you've had the account for at least five years and are over 59 1/2. Contributions are made with after-tax dollars.'',
      difficulty_weight = 2,
      us_specific = True\<rparr>,
    \<lparr>q_id = ''nov_002'',
      question = ''What does compound interest mean?'',
      options = [''Interest paid only on the original amount invested'',
        ''Interest paid on both the original amount and previously earned interest'',
        ''Interest that changes daily'',
        ''Interest that is guaranteed by the government''],
      correct = 1,
      q_level = novice,
      q_category = savings,
      explanation = ''Compound interest is when you earn interest on both your original investment and the interest you've already earned. This creates exponential growth over time.'',
      difficulty_weight = 2,
      us_specific = False\<rparr>,
    \<lparr>q_id = ''nov_003'',
      question = ''How much should you ideally have in an emergency fund?'',
      options = [''One month of expenses'',
        ''3-6 months of living expenses'',
        ''One year of income'',
        ''An amount equal to your car loan''],
      correct = 1,
      q_level = novice,
      q_category = savings,
      explanation = ''An emergency fund should hold enough cash to cover 3 to 6 months of essential living expenses. This provides a safety net for unexpected job loss, medical emergencies, or other large expenses without relying on debt.'',
      difficulty_weight = 2,
      us_specific = False\<rparr>,
    \<lparr>q_id = ''nov_004'',
      question = ''What is the most common range for a 'good' FICO credit score?'',
      options = [''300-579'',
        ''580-669'',
        ''670-739'',
        ''740-850''],
      correct = 2,
      q_level = novice,
      q_category = credit,
      explanation = ''In the United States, FICO credit scores range from 300-850. A score of 670-739 is considered good, while 740+ is very good to exceptional. Lenders often use these scores to determine loan eligibility and interest rates.'',
      difficulty_weight = 3,
      us_specific = True\<rparr>,
    \<lparr>q_id = ''nov_005'',
      question = ''What is the purpose of a 401(k) retirement plan?'',
      options = [''A tax-free account for a home down payment'',
        ''A government-funded pension plan'',
        ''An employer-sponsored retirement savings account'',
        ''A savings account for college tuition''],
      correct = 2,
      q_level = novice,
      q_category = retirement,
      explanation = ''A 401(k) is a popular employer-sponsored retirement account in the US. It allows employees to contribute a portion of their salary, often with a matching contribution from the employer. Contributions are typically pre-tax, reducing your taxable income.'',
      difficulty_weight = 3,
      us_specific = True\<rparr>,
    \<lparr>q_id = ''nov_006'',
      question = ''What is the difference between a checking and a savings account?'',
      options = [''Checking accounts pay higher interest'',
        ''Savings accounts are for daily transactions, checking for long-term goals'',
        ''Checking accounts are for daily transactions, savings accounts are for long-term goals'',
        ''There is no difference''],
      correct = 2,
      q_level = novice,
      q_category = savings,
      explanation = ''Checking accounts are designed for everyday transactions like paying bills and using a debit card, while savings accounts are intended to hold money you don't need immediately, often earning a small amount of interest.'',
      difficulty_weight = 1,
      us_specific = False\<rparr>,
    \<lparr>q_id = ''nov_007'',
      question = ''What is net income?'',
      options = [''Your total income before any deductions'',
        ''Your income after taxes and other deductions are taken out'',
        ''The money you earn from a side job'',
        ''Your income before your employer matches your 401(k) contribution''],
      correct = 1,
      q_level = novice,
      q_category = planning,
      explanation = ''Net income, or 'take-home pay,' is the amount of money you have left after all payroll deductions, such as taxes, Social Security, and health insurance premiums, are removed from your gross income.'',
      difficulty_weight = 2,
      us_specific = False\<rparr>,
    \<lparr>q_id = ''nov_008'',
      question = ''What is a mortgage?'',
      options = [''A loan used to buy a car'',
        ''A loan for a house or real estate'',
        ''A line of credit on your home'',
        ''A type of credit card''],
      correct = 1,
      q_level = novice,
      q_category = real_estate,
      explanation = ''A mortgage is a specific type of loan used to purchase a home or real estate. The property itself serves as collateral for the loan.'',
      difficulty_weight = 1,
      us_specific = False\<rparr>,
    \<lparr>q_id = ''nov_009'',
      question = ''Why is having a budget important?'',
      options = [''It guarantees you will save money'',
        ''It helps you track your spending and achieve financial goals'',
        ''It is only for people who have a lot of debt'',
        ''It allows you to spend as much as you want''],
      correct = 1,
      q_level = novice,
      q_category = budgeting,
      explanation = ''Creating a budget is the first step toward gaining control of your finances. It helps you understand where your money is going and allows you to make a plan to save, invest, and reach your goals.'',
      difficulty_weight = 1,
      us_specific = False\<rparr>,
    \<lparr>q_id = ''nov_010'',
      question = ''What is the primary role of a financial advisor?'',
      options = [''To guarantee high investment returns'',
        ''To provide personalized financial guidance and planning'',
        ''To manage your bank account daily'',
        ''To sell specific financial products only''],
      correct = 1,
      q_level = novice,
      q_category = planning,
      explanation = ''A financial advisor helps you set financial goals, create a plan, and make informed decisions about investments, retirement, and other financial matters.'',
      difficulty_weight = 1,
      us_specific = False\<rparr>,
    \<lparr>q_id = ''int_001'',
      question = ''What is a 529 plan primarily used for?'',
      options = [''Retirement savings'',
        ''Healthcare expenses'',
        ''Education savings'',
        ''Long-term care''],
      correct = 2,
      q_level = intermediate,
      q_category = education,
      explanation = ''A 529 plan is a tax-advantaged savings plan in the US designed to encourage saving for future education costs. Contributions grow tax-deferred, and withdrawals are tax-free when used for qualified education expenses.'',
      difficulty_weight = 3,
      us_specific = True\<rparr>,
    \<lparr>q_id = ''int_002'',
      question = ''What is the 'Rule of 72'?'',
      options = [''A calculation for compound interest'',
        ''A way to estimate how long it takes an investment to double'',
        ''A formula for calculating your tax liability'',
        ''A formula for calculating your credit score''],
      correct = 1,
      q_level = intermediate,
      q_category = investing,
      explanation = ''The Rule of 72 is a simple way to estimate how long it will take for your investment to double, given a fixed annual rate of return. You divide 72 by the annual rate of return.'',
      difficulty_weight = 3,
      us_specific = False\<rparr>,
    \<lparr>q_id = ''int_003'',
      question = ''What is dollar-cost averaging?'',
      options = [''Selling investments when the price is high'',
        ''Investing a fixed amount of money at regular intervals'',
        ''Investing all your money at once'',
        ''A strategy to always buy low and sell high''],
      correct = 1,
      q_level = intermediate,
      q_category = investing,
      explanation = ''Dollar-cost averaging involves investing a fixed dollar amount on a regular basis, regardless of the share price. This strategy can reduce risk by smoothing out market volatility, preventing you from putting all your money into an investment at a market peak.'',
      difficulty_weight = 3,
      us_specific = False\<rparr>,
    \<lparr>q_id = ''int_004'',
      question = ''Which of the following is a common deductible for a US tax return?'',
      options = [''Rent payments'',
        ''Standard deduction or itemized deductions for mortgage interest'',
        ''Groceries'',
        ''Car payments''],
      correct = 1,
      q_level = intermediate,
      q_category = taxation,
      explanation = ''In the US, taxpayers can choose between the standard deduction or itemized deductions, such as state and local taxes, charitable contributions, and mortgage interest. Most people take the standard deduction.'',
      difficulty_weight = 4,
      us_specific = True\<rparr>,
    \<lparr>q_id = ''int_005'',
      question = ''What is the difference between a bull market and a bear market?'',
      options = [''A bull market is a period of falling stock prices; a bear market is a period of rising stock prices'',
        ''A bull market is a period of rising stock prices; a bear market is a period of falling stock prices'',
        ''They are the same thing'',
        ''A bull market refers to the bond market, a bear market refers to the stock market''],
      correct = 1,
      q_level = intermediate,
      q_category = investing,
      explanation = ''A bull market is a prolonged period where stock prices are rising or expected to rise, while a bear market is a period where prices are falling or expected to fall, often due to a recession or economic slowdown.'',
      difficulty_weight = 3,
      us_specific = False\<rparr>,
    \<lparr>q_id = ''int_006'',
      question = ''What is a Health Savings Account (HSA)?'',
      options = [''A retirement account for healthcare professionals'',
        ''A savings account for gym memberships'',
        ''A tax-advantaged savings account for healthcare expenses'',
        ''A government-funded health insurance plan''],
      correct = 2,
      q_level = intermediate,
      q_category = savings,
      explanation = ''An HSA is a tax-advantaged savings account used in conjunction with a high-deductible health insurance plan. Contributions are tax-deductible, funds grow tax-free, and withdrawals for qualified medical expenses are also tax-free.'',
      difficulty_weight = 4,
      us_specific = True\<rparr>,
    \<lparr>q_id = ''adv_001'',
      question = ''What is a 'Sharpe Ratio'?'',
      options = [''A measure of an investment's dividend yield'',
        ''A measure of risk-adjusted return'',
        ''A measure of a company's price-to-earnings ratio'',
        ''A measure of a bond's duration''],
      correct = 1,
      q_level = advanced,
      q_category = investing,
      explanation = ''The Sharpe Ratio measures an investment's performance by adjusting for its risk. It indicates the amount of excess return an investor receives for the volatility of holding that asset. Higher ratios are better.'',
      difficulty_weight = 5,
      us_specific = False\<rparr>,
    \<lparr>q_id = ''adv_002'',
      question = ''What is 'tax loss harvesting'?'',
      options = [''Avoiding all capital gains'',
        ''Selling losing investments to offset capital gains for tax purposes'',
        ''Only investing in tax-free accounts'',
        ''Delaying all investment sales''],
      correct = 1,
      q_level = advanced,
      q_category = taxation,
      explanation = ''Tax loss harvesting involves selling investments at a loss to offset capital gains, reducing your overall tax liability. It's a strategy used at the end of the year to improve after-tax returns. In the US, you can also deduct a limited amount of losses against ordinary income.'',
      difficulty_weight = 5,
      us_specific = True\<rparr>,
    \<lparr>q_id = ''adv_003'',
      question = ''What is the main difference between a traditional IRA and a Roth IRA?'',
      options = [''Traditional IRAs are for younger people, Roth IRAs are for older people'',
        ''Traditional IRA contributions are pre-tax, while Roth IRA contributions are after-tax'',
        ''Roth IRAs have a higher contribution limit'',
        ''Traditional IRAs are for retirement, Roth IRAs are for education''],
      correct = 1,
      q_level = advanced,
      q_category = retirement,
      explanation = ''The key difference lies in the tax treatment. With a traditional IRA, contributions may be tax-deductible, and withdrawals in retirement are taxed. With a Roth IRA, contributions are not deductible, but qualified withdrawals in retirement are tax-free.'',
      difficulty_weight = 4,
      us_specific = True\<rparr>,
    \<lparr>q_id = ''adv_004'',
      question = ''What is 'asset-backed security' (ABS)?'',
      options = [''A security backed by physical gold'',
        ''A financial security backed by a pool of assets, often loans or receivables'',
        ''A security issued by a government'',
        ''A stock that pays high dividends''],
      correct = 1,
      q_level = advanced,
      q_category = investing,
      explanation = ''An asset-backed security (ABS) is a financial security collateralized by a pool of assets - such as loans, leases, credit card receivables, or royalties. These are often used to convert non-tradable assets into tradable securities.'',
      difficulty_weight = 5,
      us_specific = False\<rparr>,
    \<lparr>q_id = ''adv_005'',
      question = ''What is a 'Systematic Withdrawal Plan'?'',
      options = [''A plan to withdraw a fixed amount of money from an investment account on a regular schedule'',
        ''A plan for withdrawing from a bank account at an ATM'',
        ''A plan for getting rid of debt'',
        ''A plan for making regular contributions to a retirement account''],
      correct = 0,
      q_level = advanced,
      q_category = retirement,
      explanation = ''A systematic withdrawal plan involves taking regular withdrawals from retirement accounts while keeping remaining funds invested. This strategy helps manage income needs during retirement while balancing growth potential.'',
      difficulty_weight = 4,
      us_specific = False\<rparr>,
    \<lparr>q_id = ''adv_006'',
      question = ''What is 'basis' in tax law?'',
      options = [''The amount of tax you owe at the end of the year'',
        ''The original cost of an asset for tax purposes'',
        ''The amount of money you have in a savings account'',
        ''The amount you have contributed to a retirement account''],
      correct = 1,
      q_level = advanced,
      q_category = taxation,
      explanation = ''Basis, or 'cost basis,' is the original value of an asset for tax purposes. It is used to calculate the gain or loss when the asset is sold. For example, if you buy a stock for $100 and sell it for $150, your basis is $100, and your capital gain is $50.'',
      difficulty_weight = 5,
      us_specific = True\<rparr>
  ]"

text \<open>The private field \<^verbatim>\<open>glossaryTerms\<close>, which the constructor stores in \<^verbatim>\<open>this.terms\<close>.\<close>

definition glossaryTerms :: "GlossaryTerm list" where
  "glossaryTerms = [
    \<lparr>t_id = ''ira_roth'',
      t_term = ''Roth IRA'',
      t_definition = ''An individual retirement account (IRA) where contributions are made with after-tax dollars, and qualified withdrawals in retirement are tax-free. It's ideal for those who expect to be in a higher tax bracket later in life.'',
      t_level = novice,
      t_category = retirement,
      related_terms = Some ([''traditional_ira'', ''401k'']),
      us_context = Some (''Roth IRAs are a popular way to save for retirement in the US, offering a different tax advantage than Traditional IRAs.''),
      examples = Some ([''Retirement savings'', ''Tax-free growth'', ''Long-term wealth building''])\<rparr>,
    \<lparr>t_id = ''fico_score'',
      t_term = ''FICO Score'',
      t_definition = ''A type of credit score used by lenders to assess a person's creditworthiness. The score ranges from 300 to 850, with higher scores indicating lower credit risk. It is a key factor in determining loan and credit card approval, as well as interest rates.'',
      t_level = novice,
      t_category = credit,
      related_terms = Some ([''credit_report'', ''interest_rate'']),
      us_context = Some (''FICO is the most widely used credit scoring model in the US. A good FICO score (670-739) can lead to better financial opportunities.''),
      examples = Some ([''Mortgage application'', ''Car loan interest rate'', ''Credit card approval''])\<rparr>,
    \<lparr>t_id = ''401k'',
      t_term = ''401(k) Plan'',
      t_definition = ''An employer-sponsored retirement savings plan. Employees can contribute a portion of their pre-tax or after-tax (Roth 401k) salary, and many employers offer a matching contribution.'',
      t_level = novice,
      t_category = retirement,
      related_terms = Some ([''ira'', ''roth_ira'', ''vesting'']),
      us_context = Some (''The 401(k) is the most common workplace retirement plan in the US and is a cornerstone of American retirement savings.''),
      examples = Some ([''Retirement savings'', ''Tax reduction strategy'', ''Employer match''])\<rparr>,
    \<lparr>t_id = ''cd'',
      t_term = ''CD (Certificate of Deposit)'',
      t_definition = ''A savings certificate entitling the bearer to a fixed interest rate on a fixed sum of money for a predetermined period of time. It's a low-risk, low-return investment often insured by the FDIC.'',
      t_level = novice,
      t_category = savings,
      related_terms = Some ([''savings_account'', ''fixed_income'']),
      us_context = Some (''CDs are a common way for US consumers to earn a higher interest rate than a traditional savings account without taking on investment risk.''),
      examples = Some ([''Savings for a future goal'', ''Emergency fund overflow'', ''Short-term investment''])\<rparr>,
    \<lparr>t_id = ''inflation'',
      t_term = ''Inflation'',
      t_definition = ''The rate at which the general level of prices for goods and services rises, reducing purchasing power over time. Currently tracked by the Bureau of Labor Statistics (BLS), understanding inflation helps you make better long-term financial decisions.'',
      t_level = novice,
      t_category = economics,
      related_terms = None,
      us_context = None,
      examples = None\<rparr>,
    \<lparr>t_id = ''mortgage'',
      t_term = ''Mortgage'',
      t_definition = ''A type of loan used to finance the purchase of real estate. The property itself serves as collateral for the loan.'',
      t_level = novice,
      t_category = real_estate,
      related_terms = None,
      us_context = None,
      examples = None\<rparr>,
    \<lparr>t_id = ''529_plan'',
      t_term = ''529 Plan'',
      t_definition = ''A tax-advantaged savings plan designed to encourage saving for future education costs. Contributions grow tax-deferred, and withdrawals are tax-free when used for qualified education expenses.'',
      t_level = intermediate,
      t_category = education,
      related_terms = Some ([''ira'', ''401k'']),
      us_context = Some (''A 529 plan is the most popular way for Americans to save for college and other educational expenses, offering state and federal tax benefits.''),
      examples = Some ([''College savings'', ''Private school tuition'', ''Tax-advantaged saving''])\<rparr>,
    \<lparr>t_id = ''hsa'',
      t_term = ''HSA (Health Savings Account)'',
      t_definition = ''A tax-advantaged savings account that can be used for healthcare expenses. It is available to those with a high-deductible health plan. Contributions are tax-deductible, funds grow tax-free, and withdrawals for qualified medical expenses are also tax-free.'',
      t_level = intermediate,
      t_category = savings,
      related_terms = Some ([''fsa'', ''ira'']),
      us_context = Some (''An HSA is often considered a 'triple-tax-advantaged' account and can be a powerful retirement savings tool if healthcare costs are anticipated.''),
      examples = Some ([''Medical emergency fund'', ''Healthcare savings'', ''Retirement savings''])\<rparr>,
    \<lparr>t_id = ''etf'',
      t_term = ''ETF (Exchange-Traded Fund)'',
      t_definition = ''A type of investment fund that trades on stock exchanges like individual stocks. ETFs typically track an index, commodity, bonds, or basket of assets and often have lower fees than mutual funds.'',
      t_level = intermediate,
      t_category = investing,
      related_terms = None,
      us_context = None,
      examples = None\<rparr>,
    \<lparr>t_id = ''mutual_fund'',
      t_term = ''Mutual Fund'',
      t_definition = ''A type of investment vehicle made up of a pool of funds collected from many investors to invest in securities like stocks, bonds, or other securities. Professional fund managers make investment decisions on behalf of shareholders.'',
      t_level = intermediate,
      t_category = investing,
      related_terms = None,
      us_context = None,
      examples = None\<rparr>,
    \<lparr>t_id = ''compound_interest'',
      t_term = ''Compound Interest'',
      t_definition = ''Interest calculated on both the principal amount and previously earned interest. This creates exponential growth over time, making it one of the most powerful wealth-building concepts for long-term financial success.'',
      t_level = novice,
      t_category = savings,
      related_terms = Some ([''simple_interest'', ''principal'', ''time_value_money'']),
      us_context = None,
      examples = Some ([''Savings account growth'', ''Investment returns'', ''Debt accumulation''])\<rparr>,
    \<lparr>t_id = ''tax_loss_harvesting'',
      t_term = ''Tax Loss Harvesting'',
      t_definition = ''An investment strategy that involves selling investments at a loss to offset capital gains, thereby reducing overall tax liability. The strategy can be used to offset up to $3,000 of ordinary income per year in the US.'',
      t_level = advanced,
      t_category = taxation,
      related_terms = Some ([''capital_gains'', ''wash_sale_rule'']),
      us_context = Some (''This is a popular strategy for high-net-worth individuals to minimize their tax burden on investments, but it must be done carefully to avoid the 'wash sale rule'.''),
      examples = Some ([''Offsetting capital gains'', ''Reducing annual tax bill''])\<rparr>,
    \<lparr>t_id = ''sharpe_ratio'',
      t_term = ''Sharpe Ratio'',
      t_definition = ''A measure of risk-adjusted return that calculates the excess return per unit of risk. Higher Sharpe ratios indicate better risk-adjusted performance, useful for comparing investment strategies or fund managers.'',
      t_level = advanced,
      t_category = investing,
      related_terms = None,
      us_context = None,
      examples = None\<rparr>,
    \<lparr>t_id = ''reit'',
      t_term = ''REIT (Real Estate Investment Trust)'',
      t_definition = ''A company that owns, operates, or finances income-generating real estate. REITs allow investors to earn income from real estate without the need to buy or manage properties directly.'',
      t_level = advanced,
      t_category = real_estate,
      related_terms = None,
      us_context = None,
      examples = None\<rparr>
  ]"

subsection \<open>Class \<^verbatim>\<open>FinancialQuestionBank\<close>: the queries\<close>

text \<open>
  Modelled from the spec: the method \<^verbatim>\<open>getQuestions\<close> of \<^verbatim>\<open>FinancialQuestionBank\<close>.
  \<^verbatim>\<open>QuizEngine.generateQuiz\<close> calls \<^verbatim>\<open>this.questionBank.getQuestions(userLevel)\<close>, but
  the class declares no such method. The spec's \<^verbatim>\<open>questionsForLevel(level)\<close> is "all
  questions tagged with exactly \<^verbatim>\<open>level\<close> (no level inheritance/cascading)", in the
  order of the bank.
\<close>

definition getQuestions :: "FinancialLiteracyLevel \<Rightarrow> QuizQuestion list" where
  "getQuestions level = filter (\<lambda>q. q_level q = level) FinancialQuestionBank_questions"

text \<open>The constructor: \<^verbatim>\<open>this.terms = this.glossaryTerms\<close>.\<close>

definition terms :: "GlossaryTerm list" where
  "terms = glossaryTerms"

definition getAllTerms :: "GlossaryTerm list" where
  "getAllTerms = terms"

definition getTermsByCategory :: "FinancialCategory \<Rightarrow> GlossaryTerm list" where
  "getTermsByCategory category = filter (\<lambda>term. t_category term = category) terms"

text \<open>
  Reading a property of \<^verbatim>\<open>undefined\<close> raises a \<^verbatim>\<open>TypeError\<close>: this is the only
  error the modelled code can raise.
\<close>

datatype error = TypeError

text \<open>\<^verbatim>\<open>a.includes(x)\<close>, where \<^verbatim>\<open>a\<close> may be \<^verbatim>\<open>undefined\<close>.\<close>

definition array_includes :: "'a list option \<Rightarrow> 'a \<Rightarrow> error + bool" where
  "array_includes a x = (case a of None \<Rightarrow> Inl TypeError | Some xs \<Rightarrow> Inr (x \<in> set xs))"

text \<open>
  \<^verbatim>\<open>Array.prototype.filter\<close> with a callback that may throw: the callback runs on the
  elements in order, and the first exception leaves the whole call.
\<close>

fun filter_throwing :: "('a \<Rightarrow> error + bool) \<Rightarrow> 'a list \<Rightarrow> error + 'a list" where
  "filter_throwing p [] = Inr []"
| "filter_throwing p (x # xs) =
     (case p x of
        Inl e \<Rightarrow> Inl e
      | Inr b \<Rightarrow>
          (case filter_throwing p xs of
             Inl e \<Rightarrow> Inl e
           | Inr ys \<Rightarrow> Inr (if b then x # ys else ys)))"

definition getRelatedTerms :: "string \<Rightarrow> error + GlossaryTerm list" where
  "getRelatedTerms termId =
     (case find (\<lambda>t. t_id t = termId) terms of
        None \<Rightarrow> Inr []
      | Some term \<Rightarrow> filter_throwing (\<lambda>t. array_includes (related_terms term) (t_id t)) terms)"

section \<open>Class \<^verbatim>\<open>AssessmentEngine\<close>\<close>

text \<open>The private field \<^verbatim>\<open>assessmentQuestions\<close>: the five questions of the pretest.\<close>

definition assessmentQuestions :: "QuizQuestion list" where
  "assessmentQuestions = [
    \<lparr>q_id = ''assess_001'',
      question = ''What is the purpose of a 401(k) plan and why is it beneficial?'',
      options = [''It's a tax-free savings account for a home down payment.'',
        ''It's an employer-sponsored retirement account with potential tax benefits.'',
        ''It's a government pension plan for all citizens.'',
        ''It's a savings account for college tuition.''],
      correct = 1,
      q_level = novice,
      q_category = retirement,
      explanation = ''A 401(k) is an employer-sponsored retirement savings plan in the U.S. that allows for pre-tax contributions, reducing your current taxable income.'',
      difficulty_weight = 3,
      us_specific = True\<rparr>,
    \<lparr>q_id = ''assess_002'',
      question = ''What is the main factor that determines your FICO credit score?'',
      options = [''Your age'',
        ''Your income'',
        ''Your payment history and credit utilization'',
        ''The number of bank accounts you have''],
      correct = 2,
      q_level = novice,
      q_category = credit,
      explanation = ''Payment history (paying on time) and credit utilization (the amount of credit you're using compared to your limit) are the most significant factors in calculating a FICO credit score. Missing payments and high balances can significantly lower your score.'',
      difficulty_weight = 3,
      us_specific = True\<rparr>,
    \<lparr>q_id = ''assess_003'',
      question = ''What is the primary difference between a stock and a bond?'',
      options = [''A stock represents ownership in a company, while a bond represents a loan to a company or government.'',
        ''A stock is a loan, a bond is ownership.'',
        ''Stocks are only for advanced investors, bonds are for beginners.'',
        ''Stocks pay interest, bonds pay dividends.''],
      correct = 0,
      q_level = intermediate,
      q_category = investing,
      explanation = ''When you buy a stock, you become a part-owner (shareholder) of the company. When you buy a bond, you are lending money to the issuer (a company or government) in exchange for regular interest payments and the return of the principal at a future date.'',
      difficulty_weight = 4,
      us_specific = False\<rparr>,
    \<lparr>q_id = ''assess_004'',
      question = ''What is the primary benefit of a 529 plan?'',
      options = [''Tax-free withdrawals for qualified education expenses.'',
        ''You can withdraw money at any time for any reason without penalty.'',
        ''It's a guaranteed rate of return.'',
        ''It has no annual contribution limits.''],
      correct = 0,
      q_level = intermediate,
      q_category = education,
      explanation = ''The main benefit of a 529 plan is that the funds grow tax-deferred and are withdrawn completely tax-free as long as they are used for qualified education expenses, such as tuition, fees, and room and board.'',
      difficulty_weight = 4,
      us_specific = True\<rparr>,
    \<lparr>q_id = ''assess_005'',
      question = ''What is the relationship between risk and return in investments?'',
      options = [''Higher risk always guarantees higher returns'',
        ''There is no relationship between risk and return'',
        ''Generally, higher potential returns come with higher risk, but returns are never guaranteed'',
        ''Lower risk investments always perform better''],
      correct = 2,
      q_level = advanced,
      q_category = investing,
      explanation = ''The risk-return relationship is fundamental to investment decision-making. Investors who are willing to take on more risk demand a higher potential return, as compensation for the possibility of losing their principal.'',
      difficulty_weight = 4,
      us_specific = False\<rparr>
  ]"

record AssessmentResult =
  user_id :: string
  primary_level :: FinancialLiteracyLevel
  category_scores :: CategoryRecord
  strengths :: "FinancialCategory list"
  improvement_areas :: "FinancialCategory list"
  recommended_topics :: "string list"
  assessment_date :: Date

text \<open>\<^verbatim>\<open>xs[i]\<close> on an array: \<^verbatim>\<open>undefined\<close> (\<open>None\<close>) from the length on.\<close>

definition at_index :: "'a list \<Rightarrow> nat \<Rightarrow> 'a option" where
  "at_index xs i = (if i < length xs then Some (xs ! i) else None)"

text \<open>
  \<^verbatim>\<open>v || 0\<close> for a \<^verbatim>\<open>v\<close> read from a record of numbers: \<^verbatim>\<open>undefined\<close> and \<open>0\<close>
  are the falsy values.
\<close>

definition or_zero :: "number option \<Rightarrow> number" where
  "or_zero v = (case v of None \<Rightarrow> 0 | Some x \<Rightarrow> if x = 0 then 0 else x)"

definition questionWeights :: "FinancialLiteracyLevel \<Rightarrow> number" where
  "questionWeights l = (case l of novice \<Rightarrow> 1 | intermediate \<Rightarrow> 2 | advanced \<Rightarrow> 3)"

text \<open>The literal that initialises \<^verbatim>\<open>categoryScores\<close>: all twelve keys, in this order.\<close>

definition initialCategoryScores :: CategoryRecord where
  "initialCategoryScores =
     [(savings, 0), (retirement, 0), (investing, 0), (credit, 0), (planning, 0),
      (economics, 0), (taxation, 0), (real_estate, 0), (education, 0), (insurance, 0),
      (budgeting, 0), (debt_management, 0)]"

text \<open>
  The \<^verbatim>\<open>forEach\<close> of \<^verbatim>\<open>assessUser\<close>, from position \<open>index\<close> on. The state is the pair
  of \<^verbatim>\<open>scores\<close> (one accumulator per level) and \<^verbatim>\<open>categoryScores\<close>.
\<close>

fun assess_loop ::
  "number list \<Rightarrow> nat \<Rightarrow> QuizQuestion list \<Rightarrow>
   (FinancialLiteracyLevel \<Rightarrow> number) \<times> CategoryRecord \<Rightarrow>
   (FinancialLiteracyLevel \<Rightarrow> number) \<times> CategoryRecord" where
  "assess_loop answers index [] st = st"
| "assess_loop answers index (q # qs) (scores, categoryScores) =
     assess_loop answers (Suc index) qs
       (if at_index answers index = Some (correct q)
        then (scores(q_level q := scores (q_level q) + questionWeights (q_level q)),
              AList.update (q_category q)
                (or_zero (map_of categoryScores (q_category q)) + difficulty_weight q)
                categoryScores)
        else (scores, categoryScores))"

definition levelScores :: "number list \<Rightarrow> FinancialLiteracyLevel \<Rightarrow> number" where
  "levelScores answers =
     fst (assess_loop answers 0 assessmentQuestions (\<lambda>_. 0, initialCategoryScores))"

definition categoryScoresOf :: "number list \<Rightarrow> CategoryRecord" where
  "categoryScoresOf answers =
     snd (assess_loop answers 0 assessmentQuestions (\<lambda>_. 0, initialCategoryScores))"

text \<open>The two \<^verbatim>\<open>if\<close> statements that pick \<^verbatim>\<open>primaryLevel\<close>, in the source's order.\<close>

definition selectPrimaryLevel ::
  "(FinancialLiteracyLevel \<Rightarrow> number) \<Rightarrow> FinancialLiteracyLevel" where
  "selectPrimaryLevel scores =
     (let primaryLevel = novice;
          maxScore = scores novice;
          (maxScore, primaryLevel) =
            (if scores intermediate > maxScore then (scores intermediate, intermediate)
             else (maxScore, primaryLevel));
          primaryLevel = (if scores advanced > maxScore then advanced else primaryLevel)
      in primaryLevel)"

definition category_name :: "FinancialCategory \<Rightarrow> string" where
  "category_name c =
     (case c of
        savings \<Rightarrow> ''savings'' | retirement \<Rightarrow> ''retirement'' | investing \<Rightarrow> ''investing''
      | credit \<Rightarrow> ''credit'' | planning \<Rightarrow> ''planning'' | economics \<Rightarrow> ''economics''
      | taxation \<Rightarrow> ''taxation'' | real_estate \<Rightarrow> ''real_estate''
      | education \<Rightarrow> ''education'' | insurance \<Rightarrow> ''insurance''
      | budgeting \<Rightarrow> ''budgeting'' | debt_management \<Rightarrow> ''debt_management'')"

fun join :: "string \<Rightarrow> string list \<Rightarrow> string" where
  "join sep [] = []"
| "join sep [x] = x"
| "join sep (x # y # ys) = x @ sep @ join sep (y # ys)"

definition generateRecommendations ::
  "FinancialLiteracyLevel \<Rightarrow> FinancialCategory list \<Rightarrow> string list" where
  "generateRecommendations level improvementAreas =
     (let recommendations = [];
          recommendations =
            (if length improvementAreas > 0
             then recommendations @
               [''Based on your assessment, focus on these areas: '' @
                join '', '' (map category_name improvementAreas) @
                ''. Try our targeted quizzes and glossary sections for these topics.'']
             else recommendations);
          recommendations =
            (if level = novice
             then recommendations @
               [''Start with our 'Foundations of Finance' quiz and read the glossary terms in the Novice section.'']
             else if level = intermediate
             then recommendations @
               [''Challenge yourself with our Intermediate quizzes and explore concepts like investment diversification and tax strategies.'']
             else recommendations @
               [''You're ready for our Advanced quizzes. Dive into complex topics like options, real estate investment trusts, and advanced tax planning.''])
      in recommendations)"

text \<open>
  \<^verbatim>\<open>assessUser(answers)\<close>; \<open>now\<close> is the value of \<^verbatim>\<open>new Date()\<close> at the end of the call.
\<close>

definition assessUser :: "number list \<Rightarrow> Date \<Rightarrow> AssessmentResult" where
  "assessUser answers now =
     (let scores = levelScores answers;
          categoryScores = categoryScoresOf answers;
          primaryLevel = selectPrimaryLevel scores;
          improvementAreas = map fst (filter (\<lambda>(category, score). score < 5) categoryScores);
          strengths = map fst (filter (\<lambda>(category, score). score \<ge> 5) categoryScores);
          recommendedTopics = generateRecommendations primaryLevel improvementAreas
      in \<lparr>user_id = ''guest'',
          primary_level = primaryLevel,
          category_scores = categoryScores,
          strengths = strengths,
          improvement_areas = improvementAreas,
          recommended_topics = recommendedTopics,
          assessment_date = now\<rparr>)"

section \<open>Class \<^verbatim>\<open>QuizEngine\<close>\<close>

record QuizSession =
  session_id :: string
  user_level :: FinancialLiteracyLevel
  questions :: "QuizQuestion list"
  user_answers :: "number list"
  score :: number
  total_questions :: number
  time_taken :: number
  category_performance :: CategoryRecord
  completed_at :: Date

text \<open>
  \<^verbatim>\<open>[array[i], array[j]] = [array[j], array[i]]\<close>: both elements are read, then both
  are written.
\<close>

definition swap :: "'a list \<Rightarrow> nat \<Rightarrow> nat \<Rightarrow> 'a list" where
  "swap array i j = array[i := array ! j, j := array ! i]"

text \<open>
  \<^verbatim>\<open>shuffleArray\<close>. The source of randomness is explicit: \<open>rnd k\<close> is what the
  \<open>k\<close>-th call of \<^verbatim>\<open>Math.random()\<close> returns. \<^verbatim>\<open>Math.random\<close> promises a value
  \<open>r\<close> with \<open>0 \<le> r < 1\<close>, which keeps \<open>j = \<lfloor>r * (i + 1)\<rfloor>\<close> between \<open>0\<close> and
  \<open>i\<close>; the theorems about the shuffle assume this of \<open>rnd\<close>. The loop runs
  \<open>i\<close> from \<open>length - 1\<close> down to \<open>1\<close>. The array is shuffled in place and returned;
  the model returns the shuffled list.
\<close>

fun shuffle_loop :: "(nat \<Rightarrow> number) \<Rightarrow> nat \<Rightarrow> nat \<Rightarrow> 'a list \<Rightarrow> 'a list" where
  "shuffle_loop rnd k 0 array = array"
| "shuffle_loop rnd k (Suc n) array =
     (let i = Suc n;
          j = nat \<lfloor>rnd k * (of_nat i + 1)\<rfloor>
      in shuffle_loop rnd (Suc k) n (swap array i j))"

definition shuffleArray :: "(nat \<Rightarrow> number) \<Rightarrow> 'a list \<Rightarrow> 'a list" where
  "shuffleArray rnd array = shuffle_loop rnd 0 (length array - 1) array"

text \<open>
  The member \<^verbatim>\<open>getQuestions\<close> of a question bank object as a caller finds it: a
  function from a level to questions (\<open>Some\<close>), or \<^verbatim>\<open>undefined\<close> (\<open>None\<close>) when the
  object has no such member. Calling a member that is \<^verbatim>\<open>undefined\<close> raises a
  \<^verbatim>\<open>TypeError\<close>.
\<close>

type_synonym getQuestions_member = "(FinancialLiteracyLevel \<Rightarrow> QuizQuestion list) option"

text \<open>
  The object \<^verbatim>\<open>new FinancialQuestionBank()\<close> that the constructor of \<^verbatim>\<open>QuizEngine\<close>
  stores in \<^verbatim>\<open>this.questionBank\<close>. The class (lines 128 to 646 of the source) declares
  the methods \<^verbatim>\<open>getAllTerms\<close>, \<^verbatim>\<open>getTermsByCategory\<close> and \<^verbatim>\<open>getRelatedTerms\<close> and
  no \<^verbatim>\<open>getQuestions\<close>, so on this object the member is \<^verbatim>\<open>undefined\<close>.
\<close>

definition questionBank_getQuestions :: getQuestions_member where
  "questionBank_getQuestions = None"

text \<open>
  The body of \<^verbatim>\<open>generateQuiz(userLevel, questionCount, focusCategories?)\<close>, with the
  member \<^verbatim>\<open>this.questionBank.getQuestions\<close> as the first argument. Its first statement
  calls the member, which raises when the member is \<^verbatim>\<open>undefined\<close>. \<open>questionCount\<close>
  is a number of questions, a natural number; \<open>focusCategories\<close> is \<open>None\<close> when the
  argument is left out. The \<^verbatim>\<open>console.warn\<close> of the undersized branch writes a line
  to the console and has no other effect; it is not modelled.
\<close>

definition generateQuiz_on ::
  "getQuestions_member \<Rightarrow> (nat \<Rightarrow> number) \<Rightarrow> FinancialLiteracyLevel \<Rightarrow> nat \<Rightarrow>
   FinancialCategory list option \<Rightarrow> error + QuizQuestion list" where
  "generateQuiz_on member rnd userLevel questionCount focusCategories =
     (case member of
        None \<Rightarrow> Inl TypeError
      | Some questionBank_member \<Rightarrow>
          Inr (let availableQuestions = questionBank_member userLevel;
                   availableQuestions =
                     (case focusCategories of
                        None \<Rightarrow> availableQuestions
                      | Some fc \<Rightarrow>
                          if length fc > 0
                          then filter (\<lambda>q. q_category q \<in> set fc) availableQuestions
                          else availableQuestions)
               in if length availableQuestions < questionCount
                  then shuffleArray rnd availableQuestions
                  else take questionCount (shuffleArray rnd availableQuestions)))"

text \<open>\<^verbatim>\<open>QuizEngine.generateQuiz\<close>: the body on the engine's own \<^verbatim>\<open>this.questionBank\<close>.\<close>

definition generateQuiz ::
  "(nat \<Rightarrow> number) \<Rightarrow> FinancialLiteracyLevel \<Rightarrow> nat \<Rightarrow> FinancialCategory list option \<Rightarrow>
   error + QuizQuestion list" where
  "generateQuiz rnd userLevel questionCount focusCategories =
     generateQuiz_on questionBank_getQuestions rnd userLevel questionCount focusCategories"

text \<open>
  The \<^verbatim>\<open>forEach\<close> of \<^verbatim>\<open>scoreQuiz\<close>, from position \<open>index\<close> on; the state is the pair
  of \<^verbatim>\<open>correctAnswers\<close> and \<^verbatim>\<open>categoryPerformance\<close>.
\<close>

fun score_loop ::
  "number list \<Rightarrow> nat \<Rightarrow> QuizQuestion list \<Rightarrow> number \<times> CategoryRecord \<Rightarrow>
   number \<times> CategoryRecord" where
  "score_loop answers index [] st = st"
| "score_loop answers index (q # qs) (correctAnswers, categoryPerformance) =
     score_loop answers (Suc index) qs
       (if at_index answers index = Some (correct q)
        then (correctAnswers + 1,
              AList.update (q_category q)
                (or_zero (map_of categoryPerformance (q_category q)) + 1)
                categoryPerformance)
        else (correctAnswers, categoryPerformance))"

text \<open>
  \<^verbatim>\<open>scoreQuiz(session)\<close> assigns three fields of the session it was given and returns
  it; \<open>now\<close> is the value of \<^verbatim>\<open>new Date()\<close>.
\<close>

definition scoreQuiz :: "QuizSession \<Rightarrow> Date \<Rightarrow> QuizSession" where
  "scoreQuiz session now =
     (let (correctAnswers, categoryPerformance) =
            score_loop (user_answers session) 0 (questions session) (0, [])
      in session\<lparr>score := correctAnswers,
                  category_performance := categoryPerformance,
                  completed_at := now\<rparr>)"

text \<open>
  The pool of a quiz in the words of the spec: the questions of the level, restricted to
  the focus categories when these are provided and non-empty. It is the pool the
  statements about the body of \<^verbatim>\<open>generateQuiz\<close> refer to.
\<close>

definition quizPool ::
  "FinancialLiteracyLevel \<Rightarrow> FinancialCategory list option \<Rightarrow> QuizQuestion list" where
  "quizPool userLevel focusCategories =
     (case focusCategories of
        None \<Rightarrow> getQuestions userLevel
      | Some fc \<Rightarrow>
          if fc = [] then getQuestions userLevel
          else filter (\<lambda>q. q_category q \<in> set fc) (getQuestions userLevel))"

text \<open>Question \<open>q\<close> at position \<open>i\<close> is answered correctly: \<^verbatim>\<open>answers[i] === q.correct\<close>.\<close>

definition answered_correctly :: "number list \<Rightarrow> nat \<times> QuizQuestion \<Rightarrow> bool" where
  "answered_correctly answers = (\<lambda>(i, q). at_index answers i = Some (correct q))"

section \<open>Class \<^verbatim>\<open>ProgressTracker\<close>\<close>

text \<open>
  \<^verbatim>\<open>updateProgress\<close> copies the top level of \<^verbatim>\<open>progress\<close> with a spread and then
  writes through the copy's \<^verbatim>\<open>category_mastery\<close> and \<^verbatim>\<open>achievements\<close>, which are
  references to an object and to an array. The two are therefore kept in a store and a
  \<^verbatim>\<open>UserProgress\<close> holds their addresses: \<open>objects\<close> maps the address of a
  \<^verbatim>\<open>Record<FinancialCategory, number>\<close> to its content, \<open>arrays\<close> the address of a
  \<^verbatim>\<open>string[]\<close> to its content, and \<open>fresh\<close> is the next unused array address.
  \<^verbatim>\<open>achievements\<close> and \<^verbatim>\<open>last_activity\<close> are options because the code tests them
  for being unset (\<^verbatim>\<open>progress.achievements || []\<close>, \<^verbatim>\<open>!lastActivity\<close>).
\<close>

type_synonym ref = nat

record store =
  objects :: "ref \<Rightarrow> CategoryRecord"
  arrays :: "ref \<Rightarrow> string list"
  fresh :: ref

record UserProgress =
  progress_user_id :: string
  current_level :: FinancialLiteracyLevel
  total_quizzes_completed :: number
  total_questions_answered :: number
  overall_accuracy :: number
  category_mastery :: ref
  learning_streak :: number
  achievements :: "ref option"
  last_activity :: "Date option"

text \<open>The array literal \<^verbatim>\<open>[]\<close>: a new, empty array.\<close>

definition new_array :: "store \<Rightarrow> store \<times> ref" where
  "new_array \<sigma> = (\<sigma>\<lparr>arrays := (arrays \<sigma>)(fresh \<sigma> := []), fresh := Suc (fresh \<sigma>)\<rparr>, fresh \<sigma>)"

text \<open>\<^verbatim>\<open>a.push(x)\<close> on the array at address \<open>a\<close>.\<close>

definition push :: "store \<Rightarrow> ref \<Rightarrow> string \<Rightarrow> store" where
  "push \<sigma> a x = \<sigma>\<lparr>arrays := (arrays \<sigma>)(a := arrays \<sigma> a @ [x])\<rparr>"

text \<open>\<^verbatim>\<open>o[category] = v\<close> on the object at address \<open>o\<close>.\<close>

definition assign :: "store \<Rightarrow> ref \<Rightarrow> FinancialCategory \<Rightarrow> number \<Rightarrow> store" where
  "assign \<sigma> o_ref category v =
     \<sigma>\<lparr>objects := (objects \<sigma>)(o_ref := AList.update category v (objects \<sigma> o_ref))\<rparr>"

definition checkAchievements :: "store \<Rightarrow> UserProgress \<Rightarrow> QuizSession \<Rightarrow> store \<times> ref" where
  "checkAchievements \<sigma> progress quizSession =
     (let (\<sigma>, achievements_ref) =
            (case achievements progress of Some a \<Rightarrow> (\<sigma>, a) | None \<Rightarrow> new_array \<sigma>);
          \<sigma> = (if score quizSession = total_questions quizSession
                 \<and> ''Perfect Score'' \<notin> set (arrays \<sigma> achievements_ref)
               then push \<sigma> achievements_ref ''Perfect Score'' else \<sigma>);
          \<sigma> = (if total_quizzes_completed progress \<ge> 5
                 \<and> ''Quiz Whiz'' \<notin> set (arrays \<sigma> achievements_ref)
               then push \<sigma> achievements_ref ''Quiz Whiz'' else \<sigma>)
      in (\<sigma>, achievements_ref))"

text \<open>\<^verbatim>\<open>calculateLearningStreak(lastActivity)\<close>; \<open>today\<close> is its \<^verbatim>\<open>new Date()\<close>.\<close>

definition calculateLearningStreak :: "Date option \<Rightarrow> Date \<Rightarrow> number" where
  "calculateLearningStreak lastActivity today =
     (case lastActivity of
        None \<Rightarrow> 1
      | Some l \<Rightarrow>
          (let daysDiff = (today - l) div (1000 * 60 * 60 * 24)
           in if daysDiff \<le> 1 then 1 else 0))"

text \<open>
  The body of the \<^verbatim>\<open>forEach\<close> over \<^verbatim>\<open>Object.entries(quizSession.category_performance)\<close>.
\<close>

definition update_mastery :: "ref \<Rightarrow> FinancialCategory \<times> number \<Rightarrow> store \<Rightarrow> store" where
  "update_mastery mastery_ref entry \<sigma> =
     (let (category, score) = entry;
          currentScore = or_zero (map_of (objects \<sigma> mastery_ref) category);
          newScore = (currentScore + score) / 2
      in assign \<sigma> mastery_ref category newScore)"

text \<open>
  \<^verbatim>\<open>updateProgress(progress, quizSession)\<close> in the store \<open>\<sigma>\<close>; \<open>now\<close> and \<open>today\<close> are
  the values of its two \<^verbatim>\<open>new Date()\<close>, in the order of evaluation. The result is the
  store after the call and the object \<^verbatim>\<open>updatedProgress\<close>.
\<close>

definition updateProgress ::
  "store \<Rightarrow> UserProgress \<Rightarrow> QuizSession \<Rightarrow> Date \<Rightarrow> Date \<Rightarrow> store \<times> UserProgress" where
  "updateProgress \<sigma> progress quizSession now today =
     (let totalCorrect =
            total_questions_answered progress * overall_accuracy progress / 100
              + score quizSession;
          totalAnswered = total_questions_answered progress + total_questions quizSession;
          accuracy = (if totalAnswered > 0 then (totalCorrect / totalAnswered) * 100 else 0);
          updatedProgress =
            progress\<lparr>total_quizzes_completed := total_quizzes_completed progress + 1,
                     total_questions_answered := totalAnswered,
                     overall_accuracy := accuracy,
                     last_activity := Some now\<rparr>;
          \<sigma> = fold (update_mastery (category_mastery updatedProgress))
                (category_performance quizSession) \<sigma>;
          (\<sigma>, achievements_ref) = checkAchievements \<sigma> updatedProgress quizSession;
          updatedProgress = updatedProgress\<lparr>achievements := Some achievements_ref\<rparr>;
          updatedProgress =
            updatedProgress\<lparr>learning_streak :=
              calculateLearningStreak (last_activity progress) today\<rparr>
      in (\<sigma>, updatedProgress))"

section \<open>The content store\<close>

text \<open>The identifiers of the question bank are pairwise different, hence so are its records.\<close>

lemma bank_ids_distinct: "distinct (map q_id FinancialQuestionBank_questions)"
  by (simp add: FinancialQuestionBank_questions_def)

lemma bank_distinct: "distinct FinancialQuestionBank_questions"
  using bank_ids_distinct by (simp add: distinct_map)

text \<open>The three pools of the bank, by the identifiers of their questions.\<close>

lemma getQuestions_ids:
  "map q_id (getQuestions novice) =
     [''nov_001'', ''nov_002'', ''nov_003'', ''nov_004'', ''nov_005'',
      ''nov_006'', ''nov_007'', ''nov_008'', ''nov_009'', ''nov_010'']"
  "map q_id (getQuestions intermediate) =
     [''int_001'', ''int_002'', ''int_003'', ''int_004'', ''int_005'', ''int_006'']"
  "map q_id (getQuestions advanced) =
     [''adv_001'', ''adv_002'', ''adv_003'', ''adv_004'', ''adv_005'', ''adv_006'']"
  by (simp_all add: getQuestions_def FinancialQuestionBank_questions_def)


subsection \<open>\<^verbatim>\<open>getRelatedTerms\<close>\<close>

text \<open>An identifier that no stored term carries gives the empty array, and no error.\<close>

lemma getRelatedTerms_unknown:
  "termId \<notin> t_id ` set terms \<Longrightarrow> getRelatedTerms termId = Inr []"
proof -
  assume "termId \<notin> t_id ` set terms"
  then have "find (\<lambda>t. t_id t = termId) terms = None"
    by (auto simp: find_None_iff)
  then show ?thesis by (simp add: getRelatedTerms_def)
qed

text \<open>
  Claim C7. The claim is that \<^verbatim>\<open>relatedTerms\<close> never raises an error, also for the
  terms whose literal leaves \<^verbatim>\<open>related_terms\<close> out. The code raises for each of them:
  for the six terms \<open>inflation\<close>, \<open>mortgage\<close>, \<open>etf\<close>, \<open>mutual_fund\<close>,
  \<open>sharpe_ratio\<close> and \<open>reit\<close> the term is found, its \<^verbatim>\<open>related_terms\<close> is
  \<^verbatim>\<open>undefined\<close>, and the call of \<^verbatim>\<open>includes\<close> on it in the callback of the filter
  is a \<^verbatim>\<open>TypeError\<close>.
\<close>

theorem getRelatedTerms_raises:
  "getRelatedTerms ''inflation'' = Inl TypeError
   \<and> getRelatedTerms ''mortgage'' = Inl TypeError
   \<and> getRelatedTerms ''etf'' = Inl TypeError
   \<and> getRelatedTerms ''mutual_fund'' = Inl TypeError
   \<and> getRelatedTerms ''sharpe_ratio'' = Inl TypeError
   \<and> getRelatedTerms ''reit'' = Inl TypeError"
  by (simp add: getRelatedTerms_def terms_def glossaryTerms_def array_includes_def)

section \<open>The assessment\<close>

lemma selectPrimaryLevel_cases:
  "selectPrimaryLevel s =
     (if s intermediate > s novice
      then (if s advanced > s intermediate then advanced else intermediate)
      else (if s advanced > s novice then advanced else novice))"
  by (simp add: selectPrimaryLevel_def Let_def)

lemma primary_level_assessUser:
  "primary_level (assessUser answers now) = selectPrimaryLevel (levelScores answers)"
  by (simp add: assessUser_def Let_def)

lemma levelScores_scenario:
  "levelScores [1, 2, 0, 0, 2] novice = 2"
  "levelScores [1, 2, 0, 0, 2] intermediate = 4"
  "levelScores [1, 2, 0, 0, 2] advanced = 3"
  by (simp_all add: levelScores_def assessmentQuestions_def at_index_def questionWeights_def)

text \<open>
  Claim C4. \<^verbatim>\<open>assessUser\<close> picks \<^verbatim>\<open>primary_level\<close> by the two strict comparisons:
  intermediate replaces novice only when its accumulator is strictly greater, and
  advanced replaces the winner only when strictly greater than the winner's accumulator,
  so a tie stays with the lower level. On the all-correct answers \<open>[1, 2, 0, 0, 2]\<close> of
  the five pretest questions the accumulators are novice 2, intermediate 4 and advanced
  3, and the primary level is intermediate.
\<close>

theorem assessUser_primary_level_tie_break:
  "primary_level (assessUser answers now) =
     (if levelScores answers intermediate > levelScores answers novice
      then (if levelScores answers advanced > levelScores answers intermediate
            then advanced else intermediate)
      else (if levelScores answers advanced > levelScores answers novice
            then advanced else novice))
   \<and> levelScores [1, 2, 0, 0, 2] novice = 2
   \<and> levelScores [1, 2, 0, 0, 2] intermediate = 4
   \<and> levelScores [1, 2, 0, 0, 2] advanced = 3
   \<and> primary_level (assessUser [1, 2, 0, 0, 2] now) = intermediate"
  by (simp add: primary_level_assessUser selectPrimaryLevel_cases levelScores_scenario)

subsection \<open>Strengths and improvement areas\<close>

text \<open>
  The loop only assigns to keys that \<^verbatim>\<open>categoryScores\<close> already has, so the twelve
  keys of the initial literal stay, in their order.
\<close>

lemma assess_loop_keys:
  "fst ` set cs = UNIV \<Longrightarrow> map fst (snd (assess_loop answers i qs (s, cs))) = map fst cs"
proof (induction qs arbitrary: i s cs)
  case Nil
  then show ?case by simp
next
  case (Cons q qs)
  let ?cs' = "AList.update (q_category q)
                (or_zero (map_of cs (q_category q)) + difficulty_weight q) cs"
  have k: "map fst ?cs' = map fst cs"
    using Cons.prems by (simp add: update_keys)
  then have "fst ` set ?cs' = UNIV"
    using Cons.prems by (metis list.set_map)
  with k Cons.IH [of ?cs'] Cons.IH [of cs] Cons.prems show ?case
    by simp
qed

lemma categoryScoresOf_keys:
  "map fst (categoryScoresOf answers) =
     [savings, retirement, investing, credit, planning, economics, taxation, real_estate,
      education, insurance, budgeting, debt_management]"
proof -
  have "fst ` set initialCategoryScores = UNIV"
  proof -
    have "c \<in> fst ` set initialCategoryScores" for c
      by (cases c) (simp_all add: initialCategoryScores_def)
    then show ?thesis by blast
  qed
  then have "map fst (categoryScoresOf answers) = map fst initialCategoryScores"
    unfolding categoryScoresOf_def by (rule assess_loop_keys)
  then show ?thesis by (simp add: initialCategoryScores_def)
qed

lemma categoryScoresOf_distinct: "distinct (map fst (categoryScoresOf answers))"
  by (simp add: categoryScoresOf_keys)

lemma categoryScoresOf_total: "\<exists>v. map_of (categoryScoresOf answers) c = Some v"
proof -
  have "c \<in> set (map fst (categoryScoresOf answers))"
    unfolding categoryScoresOf_keys by (cases c) simp_all
  then have "c \<in> dom (map_of (categoryScoresOf answers))"
    by (simp add: dom_map_of_conv_image_fst)
  then show ?thesis by blast
qed

lemma keys_of_filter:
  assumes "distinct (map fst cs)"
  shows "set (map fst (filter P cs)) = {c. \<exists>v. map_of cs c = Some v \<and> P (c, v)}"
proof -
  have "(c, v) \<in> set cs \<longleftrightarrow> map_of cs c = Some v" for c v
    using assms by simp
  then show ?thesis by force
qed

lemma assessUser_fields:
  "category_scores (assessUser answers now) = categoryScoresOf answers"
  "improvement_areas (assessUser answers now) =
     map fst (filter (\<lambda>(category, score). score < 5) (categoryScoresOf answers))"
  "strengths (assessUser answers now) =
     map fst (filter (\<lambda>(category, score). score \<ge> 5) (categoryScoresOf answers))"
  by (simp_all add: assessUser_def Let_def)

lemma improvement_areas_set:
  "set (improvement_areas (assessUser answers now)) =
     {c. \<exists>v. map_of (categoryScoresOf answers) c = Some v \<and> v < 5}"
  by (simp only: assessUser_fields keys_of_filter [OF categoryScoresOf_distinct]) simp

lemma strengths_set:
  "set (strengths (assessUser answers now)) =
     {c. \<exists>v. map_of (categoryScoresOf answers) c = Some v \<and> v \<ge> 5}"
  by (simp only: assessUser_fields keys_of_filter [OF categoryScoresOf_distinct]) simp

lemma areas_distinct:
  "distinct (improvement_areas (assessUser answers now))"
  "distinct (strengths (assessUser answers now))"
  by (simp_all only: assessUser_fields distinct_map_filter categoryScoresOf_distinct)

text \<open>
  Claim C5. For every answers vector, \<^verbatim>\<open>improvement_areas\<close> is exactly the categories
  whose accumulated score is below 5 and \<^verbatim>\<open>strengths\<close> exactly those whose score is at
  least 5; every category has a score (zero when no question of it was answered
  correctly), the two lists are disjoint, together they cover the twelve categories, and
  no category is listed twice.
\<close>

theorem assessUser_partition:
  "set (improvement_areas (assessUser answers now)) =
     {c. \<exists>v. map_of (category_scores (assessUser answers now)) c = Some v \<and> v < 5}
   \<and> set (strengths (assessUser answers now)) =
     {c. \<exists>v. map_of (category_scores (assessUser answers now)) c = Some v \<and> v \<ge> 5}
   \<and> set (improvement_areas (assessUser answers now))
       \<inter> set (strengths (assessUser answers now)) = {}
   \<and> set (improvement_areas (assessUser answers now))
       \<union> set (strengths (assessUser answers now)) = UNIV
   \<and> distinct (improvement_areas (assessUser answers now)
       @ strengths (assessUser answers now))
   \<and> dom (map_of (category_scores (assessUser answers now))) = UNIV"
proof -
  let ?m = "map_of (categoryScoresOf answers)"
  have tot: "\<exists>v. ?m c = Some v" for c by (rule categoryScoresOf_total)
  have disj: "{c. \<exists>v. ?m c = Some v \<and> v < 5} \<inter> {c. \<exists>v. ?m c = Some v \<and> v \<ge> 5} = {}"
    by auto
  have un: "{c. \<exists>v. ?m c = Some v \<and> v < 5} \<union> {c. \<exists>v. ?m c = Some v \<and> v \<ge> 5} = UNIV"
  proof -
    have "c \<in> {c. \<exists>v. ?m c = Some v \<and> v < 5} \<union> {c. \<exists>v. ?m c = Some v \<and> v \<ge> 5}" for c
      using tot [of c] by (auto simp: not_le)
    then show ?thesis by blast
  qed
  have dom: "dom ?m = UNIV" using tot by auto
  show ?thesis
    using disj un dom areas_distinct [of answers now]
    by (simp add: improvement_areas_set strengths_set assessUser_fields(1))
qed

text \<open>
  Claim C6, as stated, fails: it says that a category with accumulated score 0 is in
  neither list. With no answer given, savings has score 0 and is an improvement area.
\<close>

theorem assessUser_zero_score_counterexample:
  "map_of (category_scores (assessUser [] 0)) savings = Some 0
   \<and> savings \<in> set (improvement_areas (assessUser [] 0))"
  by (simp add: assessUser_def Let_def categoryScoresOf_def assessmentQuestions_def
      at_index_def initialCategoryScores_def)

text \<open>
  Claim C6, amended. For every answers vector, \<^verbatim>\<open>strengths\<close> and
  \<^verbatim>\<open>improvement_areas\<close> are disjoint and together cover all twelve categories, and
  every category with accumulated score 0 is an improvement area and not a strength.
\<close>

theorem assessUser_zero_score_improvement:
  "set (improvement_areas (assessUser answers now))
       \<inter> set (strengths (assessUser answers now)) = {}
   \<and> set (improvement_areas (assessUser answers now))
       \<union> set (strengths (assessUser answers now)) = UNIV
   \<and> (map_of (category_scores (assessUser answers now)) c = Some 0 \<longrightarrow>
        c \<in> set (improvement_areas (assessUser answers now))
        \<and> c \<notin> set (strengths (assessUser answers now)))"
proof -
  let ?m = "map_of (categoryScoresOf answers)"
  have tot: "\<exists>v. ?m c = Some v" for c by (rule categoryScoresOf_total)
  have disj: "{c. \<exists>v. ?m c = Some v \<and> v < 5} \<inter> {c. \<exists>v. ?m c = Some v \<and> v \<ge> 5} = {}"
    by auto
  have un: "{c. \<exists>v. ?m c = Some v \<and> v < 5} \<union> {c. \<exists>v. ?m c = Some v \<and> v \<ge> 5} = UNIV"
  proof -
    have "c \<in> {c. \<exists>v. ?m c = Some v \<and> v < 5} \<union> {c. \<exists>v. ?m c = Some v \<and> v \<ge> 5}" for c
      using tot [of c] by (auto simp: not_le)
    then show ?thesis by blast
  qed
  show ?thesis
    using disj un
    by (simp add: improvement_areas_set strengths_set assessUser_fields(1))
qed

theorem assessUser_zero_score_improvement_witness:
  "map_of (category_scores (assessUser [] 0)) savings = Some 0
   \<and> savings \<in> set (improvement_areas (assessUser [] 0))
   \<and> savings \<notin> set (strengths (assessUser [] 0))"
proof -
  have h: "map_of (category_scores (assessUser [] 0)) savings = Some 0"
    by (simp add: assessUser_def Let_def categoryScoresOf_def assessmentQuestions_def
        at_index_def initialCategoryScores_def)
  with assessUser_zero_score_improvement [of "[]" 0 savings] show ?thesis
    by blast
qed

section \<open>Scoring a quiz\<close>

subsection \<open>What \<^verbatim>\<open>scoreQuiz\<close> counts\<close>

lemma or_zero_Some [simp]: "or_zero (Some x) = x"
  by (simp add: or_zero_def)

lemma or_zero_None [simp]: "or_zero None = 0"
  by (simp add: or_zero_def)

lemma score_loop_fst:
  "fst (score_loop answers off qs (n, cp)) =
     n + of_nat (length (filter (answered_correctly answers) (enumerate off qs)))"
  by (induction qs arbitrary: off n cp) (simp_all add: answered_correctly_def)

lemma score_loop_snd:
  "map_of (snd (score_loop answers off qs (n, cp))) c =
     (let k = length (filter (\<lambda>(i, q). answered_correctly answers (i, q) \<and> q_category q = c)
                (enumerate off qs))
      in if k = 0 then map_of cp c else Some (or_zero (map_of cp c) + of_nat k))"
proof (induction qs arbitrary: off n cp)
  case Nil
  then show ?case by simp
next
  case (Cons q qs)
  show ?case
    by (simp add: Cons.IH Let_def answered_correctly_def update_conv' map_of_map_restrict)
qed

lemma score_loop_distinct:
  "distinct (map fst cp) \<Longrightarrow> distinct (map fst (snd (score_loop answers off qs (n, cp))))"
  by (induction qs arbitrary: off n cp) (simp_all add: distinct_update)

lemma filter_enumerate_card:
  "length (filter P (enumerate 0 qs)) = card {i. i < length qs \<and> P (i, qs ! i)}"
proof -
  have "{i. i < length (enumerate 0 qs) \<and> P (enumerate 0 qs ! i)}
        = {i. i < length qs \<and> P (i, qs ! i)}"
    by (auto simp: nth_enumerate_eq)
  then show ?thesis by (simp add: length_filter_conv_card)
qed

lemma scoreQuiz_fields:
  "score (scoreQuiz session now) =
     fst (score_loop (user_answers session) 0 (questions session) (0, []))"
  "category_performance (scoreQuiz session now) =
     snd (score_loop (user_answers session) 0 (questions session) (0, []))"
  "questions (scoreQuiz session now) = questions session"
  "user_answers (scoreQuiz session now) = user_answers session"
  by (simp_all add: scoreQuiz_def split: prod.splits)

text \<open>
  Claim C9. \<^verbatim>\<open>scoreQuiz\<close> sets \<^verbatim>\<open>score\<close> to the number of positions \<open>i\<close> of
  \<^verbatim>\<open>questions\<close> at which \<^verbatim>\<open>user_answers[i]\<close> is the question's correct index, and
  \<^verbatim>\<open>category_performance\<close> to the record that gives each category its number of
  correct answers and has a key only for a category with at least one (each key once).
  Both depend on \<^verbatim>\<open>questions\<close> and \<^verbatim>\<open>user_answers\<close> only: scoring the scored session
  again, or a session that differs in all the other fields, gives the same \<^verbatim>\<open>score\<close>
  and \<^verbatim>\<open>category_performance\<close>.
\<close>

theorem scoreQuiz_counts:
  "score (scoreQuiz session now) =
     of_nat (card {i. i < length (questions session)
                    \<and> at_index (user_answers session) i = Some (correct (questions session ! i))})
   \<and> map_of (category_performance (scoreQuiz session now)) c =
       (let k = card {i. i < length (questions session)
                    \<and> at_index (user_answers session) i = Some (correct (questions session ! i))
                    \<and> q_category (questions session ! i) = c}
        in if k = 0 then None else Some (of_nat k))
   \<and> distinct (map fst (category_performance (scoreQuiz session now)))
   \<and> score (scoreQuiz (scoreQuiz session now) later) = score (scoreQuiz session now)
   \<and> category_performance (scoreQuiz (scoreQuiz session now) later) =
       category_performance (scoreQuiz session now)
   \<and> score (scoreQuiz (session\<lparr>session_id := a1, user_level := a2, score := a3,
         total_questions := a4, time_taken := a5, category_performance := a6,
         completed_at := a7\<rparr>) later) = score (scoreQuiz session now)
   \<and> category_performance (scoreQuiz (session\<lparr>session_id := a1, user_level := a2,
         score := a3, total_questions := a4, time_taken := a5, category_performance := a6,
         completed_at := a7\<rparr>) later) = category_performance (scoreQuiz session now)"
proof -
  have 1: "score (scoreQuiz session now) =
     of_nat (card {i. i < length (questions session)
                    \<and> at_index (user_answers session) i = Some (correct (questions session ! i))})"
    by (simp add: scoreQuiz_fields score_loop_fst filter_enumerate_card answered_correctly_def)
  have 2: "map_of (category_performance (scoreQuiz session now)) c =
       (let k = card {i. i < length (questions session)
                    \<and> at_index (user_answers session) i = Some (correct (questions session ! i))
                    \<and> q_category (questions session ! i) = c}
        in if k = 0 then None else Some (of_nat k))"
    by (simp add: scoreQuiz_fields score_loop_snd filter_enumerate_card answered_correctly_def
        Let_def)
  have 3: "distinct (map fst (category_performance (scoreQuiz session now)))"
    by (simp add: scoreQuiz_fields score_loop_distinct)
  show ?thesis
    using 1 2 3 by (simp add: scoreQuiz_fields)
qed

text \<open>
  Claim C10. \<^verbatim>\<open>scoreQuiz\<close> writes the fields \<^verbatim>\<open>score\<close>, \<^verbatim>\<open>category_performance\<close>
  and \<^verbatim>\<open>completed_at\<close> only: the returned session is the given one with these three
  fields replaced, and its \<^verbatim>\<open>session_id\<close>, \<^verbatim>\<open>user_level\<close>, \<^verbatim>\<open>questions\<close>,
  \<^verbatim>\<open>user_answers\<close>, \<^verbatim>\<open>total_questions\<close> and \<^verbatim>\<open>time_taken\<close> are those of the
  given session.
\<close>

theorem scoreQuiz_frame:
  "session_id (scoreQuiz session now) = session_id session
   \<and> user_level (scoreQuiz session now) = user_level session
   \<and> questions (scoreQuiz session now) = questions session
   \<and> user_answers (scoreQuiz session now) = user_answers session
   \<and> total_questions (scoreQuiz session now) = total_questions session
   \<and> time_taken (scoreQuiz session now) = time_taken session
   \<and> scoreQuiz session now =
       session\<lparr>score := score (scoreQuiz session now),
                category_performance := category_performance (scoreQuiz session now),
                completed_at := completed_at (scoreQuiz session now)\<rparr>"
  by (simp add: scoreQuiz_def split: prod.splits)

section \<open>Generating a quiz\<close>

text \<open>
  With \<open>0 \<le> r < 1\<close> the index \<open>j\<close> drawn for position \<open>i\<close> is at most \<open>i\<close>, so
  every step of the shuffle swaps two positions of the array and the result is a
  permutation of the argument.
\<close>

lemma random_index_le:
  fixes r :: number
  assumes "0 \<le> r" "r < 1"
  shows "nat \<lfloor>r * (of_nat i + 1)\<rfloor> \<le> i"
proof -
  have "0 < (of_nat i + 1 :: rat)"
    by (simp add: add_nonneg_pos)
  then have "r * (of_nat i + 1) < 1 * (of_nat i + 1)"
    using assms(2) by (intro mult_strict_right_mono)
  then have "r * (of_nat i + 1) < of_int (int i + 1)"
    by simp
  then have "\<lfloor>r * (of_nat i + 1)\<rfloor> < int i + 1"
    by (simp only: floor_less_iff)
  then show ?thesis by simp
qed

lemma swap_mset:
  "i < length array \<Longrightarrow> j < length array \<Longrightarrow> mset (swap array i j) = mset array"
  unfolding swap_def by (rule mset_swap)

lemma swap_length [simp]: "length (swap array i j) = length array"
  by (simp add: swap_def)

lemma shuffle_loop_mset:
  assumes "\<forall>k. 0 \<le> rnd k \<and> rnd k < 1"
  shows "n < length array \<Longrightarrow> mset (shuffle_loop rnd k n array) = mset array"
proof (induction n arbitrary: k array)
  case 0
  then show ?case by simp
next
  case (Suc n)
  let ?j = "nat \<lfloor>rnd k * (of_nat (Suc n) + 1)\<rfloor>"
  have "?j \<le> Suc n"
    using assms by (intro random_index_le) auto
  with Suc.prems have j: "?j < length array" by simp
  have "mset (shuffle_loop rnd (Suc k) n (swap array (Suc n) ?j)) = mset (swap array (Suc n) ?j)"
    using Suc.prems by (intro Suc.IH) simp
  also have "\<dots> = mset array"
    using Suc.prems j by (rule swap_mset)
  finally show ?case by (simp add: Let_def)
qed

lemma shuffleArray_mset:
  assumes "\<forall>k. 0 \<le> rnd k \<and> rnd k < 1"
  shows "mset (shuffleArray rnd array) = mset array"
proof (cases array)
  case Nil
  then show ?thesis by (simp add: shuffleArray_def)
next
  case (Cons x xs)
  then have "length array - 1 < length array" by simp
  then show ?thesis
    unfolding shuffleArray_def by (rule shuffle_loop_mset [OF assms])
qed

lemma shuffleArray_facts:
  assumes "\<forall>k. 0 \<le> rnd k \<and> rnd k < 1"
  shows "length (shuffleArray rnd array) = length array"
    and "set (shuffleArray rnd array) = set array"
    and "distinct (shuffleArray rnd array) = distinct array"
  using shuffleArray_mset [OF assms, of array]
  by (metis size_mset, metis set_mset_mset, metis mset_eq_imp_distinct_iff)

lemma generateQuiz_on_pool:
  "generateQuiz_on (Some getQuestions) rnd userLevel questionCount focusCategories =
     Inr (if length (quizPool userLevel focusCategories) < questionCount
          then shuffleArray rnd (quizPool userLevel focusCategories)
          else take questionCount (shuffleArray rnd (quizPool userLevel focusCategories)))"
  by (simp add: generateQuiz_on_def quizPool_def Let_def split: option.splits)

lemma quizPool_distinct: "distinct (quizPool userLevel focusCategories)"
  using bank_distinct by (simp add: quizPool_def getQuestions_def split: option.splits)

lemma quizPool_subset: "set (quizPool userLevel focusCategories) \<subseteq> set (getQuestions userLevel)"
  by (auto simp: quizPool_def split: option.splits)

text \<open>
  What the body does on a bank that has the member, with the \<open>getQuestions\<close> of the
  spec for it: it returns a list, of exactly \<open>questionCount\<close> questions when the pool
  has at least that many and otherwise the entire pool in some order; the questions are
  taken from the pool, each at most as often as the pool has it, they are questions of
  \<open>getQuestions userLevel\<close>, and none is returned twice. The hypothesis is the contract
  of \<^verbatim>\<open>Math.random\<close>.
\<close>

lemma generateQuiz_on_count_subset_distinct:
  assumes "\<forall>k. 0 \<le> rnd k \<and> rnd k < 1"
  shows "case generateQuiz_on (Some getQuestions) rnd userLevel questionCount focusCategories of
           Inl e \<Rightarrow> False
         | Inr quiz \<Rightarrow>
             (if length (quizPool userLevel focusCategories) \<ge> questionCount
              then length quiz = questionCount
              else mset quiz = mset (quizPool userLevel focusCategories))
             \<and> mset quiz \<subseteq># mset (quizPool userLevel focusCategories)
             \<and> set quiz \<subseteq> set (getQuestions userLevel)
             \<and> distinct quiz"
proof -
  let ?pool = "quizPool userLevel focusCategories"
  let ?sh = "shuffleArray rnd ?pool"
  note sh = shuffleArray_facts [OF assms, of ?pool]
  have d: "distinct ?sh" using sh(3) quizPool_distinct by simp
  have sub: "mset (take questionCount ?sh) \<subseteq># mset ?pool"
    by (metis append_take_drop_id mset_append mset_subset_eq_add_left
        shuffleArray_mset [OF assms])
  have set_sub: "set (take questionCount ?sh) \<subseteq> set (getQuestions userLevel)"
    using set_take_subset [of questionCount ?sh] sh(2) quizPool_subset by blast
  show ?thesis
    using d sub set_sub sh quizPool_subset shuffleArray_mset [OF assms, of ?pool]
    by (auto simp: generateQuiz_on_pool)
qed

text \<open>
  Claim C8. The claim is that \<^verbatim>\<open>generateQuiz\<close> returns exactly \<open>count\<close> questions
  when the pool has that many and the entire pool otherwise, without duplicates, and
  raises no error. The code raises on every input: its first statement calls
  \<^verbatim>\<open>this.questionBank.getQuestions(userLevel)\<close>, and the object has no such member, so
  for every level, count and focus categories (a call \<^verbatim>\<open>generateQuiz('novice', 3)\<close>
  for one) the call is a \<^verbatim>\<open>TypeError\<close> and no question is returned.
\<close>

theorem generateQuiz_raises:
  "generateQuiz rnd userLevel questionCount focusCategories = Inl TypeError
   \<and> generateQuiz rnd novice 3 None = Inl TypeError
   \<and> generateQuiz rnd advanced 10 (Some [taxation]) = Inl TypeError"
  by (simp add: generateQuiz_def generateQuiz_on_def questionBank_getQuestions_def)

section \<open>Updating the progress\<close>

text \<open>Updating the mastery writes to objects only: the arrays of the store stay.\<close>

lemma fold_update_mastery_arrays:
  "arrays (fold (update_mastery r) cp \<sigma>) = arrays \<sigma>
   \<and> fresh (fold (update_mastery r) cp \<sigma>) = fresh \<sigma>"
  by (induction cp arbitrary: \<sigma>) (simp_all add: update_mastery_def assign_def split: prod.splits)

lemma updateProgress_overall_accuracy:
  "overall_accuracy (snd (updateProgress \<sigma> progress quizSession now today)) =
     (if total_questions_answered progress + total_questions quizSession > 0
      then (total_questions_answered progress * overall_accuracy progress / 100
              + score quizSession)
           / (total_questions_answered progress + total_questions quizSession) * 100
      else 0)"
  by (simp add: updateProgress_def Let_def split: prod.splits)

lemma updateProgress_total_quizzes_completed:
  "total_quizzes_completed (snd (updateProgress \<sigma> progress quizSession now today)) =
     total_quizzes_completed progress + 1"
  by (simp add: updateProgress_def Let_def split: prod.splits)

text \<open>
  Claim C3. For every progress and session, \<^verbatim>\<open>updateProgress\<close> sets
  \<^verbatim>\<open>overall_accuracy\<close> to
  \<open>(total_questions_answered * overall_accuracy / 100 + score) /
  (total_questions_answered + total_questions) * 100\<close> when the denominator is positive,
  and to 0 otherwise. In particular, from a progress with no quiz completed, no question
  answered and accuracy 0, and a session with score 8 of 10 questions, the new accuracy
  is 80, one quiz is completed, and the achievements of the result are those of the
  progress before the call (none when they were unset): "Perfect Score" is not added.
\<close>

theorem updateProgress_accuracy:
  "overall_accuracy (snd (updateProgress \<sigma> progress quizSession now today)) =
     (if total_questions_answered progress + total_questions quizSession > 0
      then (total_questions_answered progress * overall_accuracy progress / 100
              + score quizSession)
           / (total_questions_answered progress + total_questions quizSession) * 100
      else 0)
   \<and> (let progress0 = progress\<lparr>total_quizzes_completed := 0,
                                 total_questions_answered := 0,
                                 overall_accuracy := 0\<rparr>;
           session8 = quizSession\<lparr>score := 8, total_questions := 10\<rparr>;
           (\<sigma>', progress') = updateProgress \<sigma> progress0 session8 now today
       in overall_accuracy progress' = 80
          \<and> total_quizzes_completed progress' = 1
          \<and> (case achievements progress' of
                None \<Rightarrow> False
              | Some a' \<Rightarrow>
                  arrays \<sigma>' a' =
                    (case achievements progress of None \<Rightarrow> [] | Some a \<Rightarrow> arrays \<sigma> a)))"
proof -
  let ?p0 = "progress\<lparr>total_quizzes_completed := 0, total_questions_answered := 0,
               overall_accuracy := 0\<rparr>"
  let ?s8 = "quizSession\<lparr>score := 8, total_questions := 10\<rparr>"
  have scen: "(let (\<sigma>', progress') = updateProgress \<sigma> ?p0 ?s8 now today
       in overall_accuracy progress' = 80
          \<and> total_quizzes_completed progress' = 1
          \<and> (case achievements progress' of
                None \<Rightarrow> False
              | Some a' \<Rightarrow>
                  arrays \<sigma>' a' =
                    (case achievements progress of None \<Rightarrow> [] | Some a \<Rightarrow> arrays \<sigma> a)))"
    by (simp add: updateProgress_def Let_def checkAchievements_def new_array_def
        fold_update_mastery_arrays split: option.splits)
  show ?thesis
    using scen by (simp add: updateProgress_overall_accuracy Let_def)
qed

text \<open>
  Claim C2. The claim is that \<^verbatim>\<open>updateProgress\<close> leaves the caller's progress
  unchanged, its \<^verbatim>\<open>category_mastery\<close> and \<^verbatim>\<open>achievements\<close> in particular. The
  spread copies the top level only, so the result shares both with the argument, and
  the call writes through them. Here a progress with empty mastery and no achievement
  is updated with a session of one question, answered correctly, in the category
  savings: after the call the caller's own \<^verbatim>\<open>category_mastery\<close> holds savings with
  one half, and the caller's own \<^verbatim>\<open>achievements\<close> holds "Perfect Score".
\<close>

theorem updateProgress_mutates_original:
  "(let \<sigma> = \<lparr>objects = (\<lambda>_. []), arrays = (\<lambda>_. []), fresh = 1\<rparr>;
        progress = \<lparr>progress_user_id = ''user'', current_level = novice,
                    total_quizzes_completed = 0, total_questions_answered = 0,
                    overall_accuracy = 0, category_mastery = 0, learning_streak = 0,
                    achievements = Some 0, last_activity = None\<rparr>;
        quizSession = \<lparr>session_id = ''session'', user_level = novice, questions = [],
                       user_answers = [], score = 1, total_questions = 1, time_taken = 30,
                       category_performance = [(savings, 1)], completed_at = 0\<rparr>;
        (\<sigma>', progress') = updateProgress \<sigma> progress quizSession 1 2
    in objects \<sigma> (category_mastery progress) = []
       \<and> objects \<sigma>' (category_mastery progress) = [(savings, 1 / 2)]
       \<and> arrays \<sigma> 0 = [] \<and> achievements progress = Some 0
       \<and> arrays \<sigma>' 0 = [''Perfect Score''])"
  by (simp add: updateProgress_def Let_def checkAchievements_def update_mastery_def
      assign_def push_def calculateLearningStreak_def)

end
